theory Spec2Isabelle
  imports Complex_Main "HOL-Library.AList"
begin

section \<open>Difficulty-aware scoring: data model\<close>

text \<open>
  The scorer (\<^verbatim>\<open>lib/difficulty-aware-scorer.ts\<close>) works on JavaScript numbers. Counters that
  the code only ever increments from \<open>0\<close> are natural numbers here; every other number is a
  real, so the arithmetic of the model is exact (rounding errors of IEEE doubles are outside
  the model). Exceptions are values: a call returns \<open>Inl TypeError\<close> where the JavaScript
  throws.
\<close>

datatype error = TypeError

datatype tier = Easy | Moderate | Hard

datatype mastery_status = Mastered | PartiallyUnderstood | NeedsRevision

datatype understanding_level = JobReady | Improving | Beginner

text \<open>The fields of a response and of a question that the scorer reads.\<close>

record QuestionResponse =
  is_correct :: bool
  user_confidence :: real
  total_time :: real

record Question =
  topic :: string
  difficulty :: string

record DifficultyScore =
  score_difficulty :: tier
  total_questions :: nat
  correct :: nat
  accuracy :: real
  avg_confidence :: real
  avg_time :: real

text \<open>The object \<^verbatim>\<open>scores\<close> with its three own properties.\<close>

record DifficultyScores =
  easy :: DifficultyScore
  moderate :: DifficultyScore
  hard :: DifficultyScore

record ConceptMastery =
  concept :: string
  easy_score :: real
  moderate_score :: real
  hard_score :: real
  overall_score :: real
  status :: mastery_status
  question_count :: nat

text \<open>The per-topic counters \<^verbatim>\<open>{ correct, total }\<close> kept in \<^verbatim>\<open>conceptMap\<close>.\<close>

record tally =
  n_correct :: nat
  n_total :: nat

record concept_data =
  c_easy :: tally
  c_moderate :: tally
  c_hard :: tally

section \<open>JavaScript library functions\<close>

text \<open>\<^verbatim>\<open>String.prototype.toLowerCase\<close> on the letters that can matter for a property name.\<close>

definition toLowerCase_char :: "char \<Rightarrow> char" where
  "toLowerCase_char c =
     (case map_of (zip ''ABCDEFGHIJKLMNOPQRSTUVWXYZ'' ''abcdefghijklmnopqrstuvwxyz'') c of
        None \<Rightarrow> c
      | Some d \<Rightarrow> d)"

definition toLowerCase :: "string \<Rightarrow> string" where
  "toLowerCase s = map toLowerCase_char s"

text \<open>
  Reading \<^verbatim>\<open>obj[key]\<close> on an object literal whose own properties are \<^verbatim>\<open>easy\<close>,
  \<^verbatim>\<open>moderate\<close> and \<^verbatim>\<open>hard\<close>: an own property, a property inherited from
  \<^verbatim>\<open>Object.prototype\<close> (the only all-lowercase names there are \<^verbatim>\<open>constructor\<close> and
  \<^verbatim>\<open>__proto__\<close>; incrementing a counter on such an object writes outside the result and
  does not throw), or \<^verbatim>\<open>undefined\<close>, on which the next property access throws.
\<close>

datatype property = Own tier | Inherited | Undefined

definition tier_property :: "string \<Rightarrow> property" where
  "tier_property k =
     (if k = ''easy'' then Own Easy
      else if k = ''moderate'' then Own Moderate
      else if k = ''hard'' then Own Hard
      else if k = ''constructor'' \<or> k = ''__proto__'' then Inherited
      else Undefined)"

text \<open>\<^verbatim>\<open>questions[idx]\<close>: \<^verbatim>\<open>undefined\<close> past the end of the array.\<close>

definition js_index :: "'a list \<Rightarrow> nat \<Rightarrow> 'a option" where
  "js_index xs i = (if i < length xs then Some (xs ! i) else None)"

text \<open>\<^verbatim>\<open>Math.round\<close>: the nearest integer, a half rounded up.\<close>

definition Math_round :: "real \<Rightarrow> int" where
  "Math_round x = \<lfloor>x + 1 / 2\<rfloor>"

text \<open>
  \<^verbatim>\<open>Array.prototype.sort\<close> with a comparator. The sort is stable; it is modelled as the
  insertion sort that puts an element before the first one that does not have to precede it.
\<close>

fun insert_by :: "('a \<Rightarrow> 'a \<Rightarrow> real) \<Rightarrow> 'a \<Rightarrow> 'a list \<Rightarrow> 'a list" where
  "insert_by cmp x [] = [x]"
| "insert_by cmp x (y # ys) = (if cmp x y \<le> 0 then x # y # ys else y # insert_by cmp x ys)"

definition sort_by :: "('a \<Rightarrow> 'a \<Rightarrow> real) \<Rightarrow> 'a list \<Rightarrow> 'a list" where
  "sort_by cmp xs = foldr (insert_by cmp) xs []"

text \<open>\<^verbatim>\<open>Array.prototype.join\<close> on strings.\<close>

fun join :: "string \<Rightarrow> string list \<Rightarrow> string" where
  "join sep [] = []"
| "join sep [x] = x"
| "join sep (x # y # ys) = x @ sep @ join sep (y # ys)"

text \<open>
  The loop \<^verbatim>\<open>responses.forEach((response, idx) => { const question = questions[idx];
  if (!question) return; ... })\<close>, which both aggregators run: a response whose position has
  no question is passed over, the body runs on every other one, and an exception thrown by
  the body ends the loop.
\<close>

fun forEach_response :: "('s \<Rightarrow> QuestionResponse \<Rightarrow> Question \<Rightarrow> error + 's) \<Rightarrow>
    Question list \<Rightarrow> nat \<Rightarrow> QuestionResponse list \<Rightarrow> 's \<Rightarrow> error + 's" where
  "forEach_response body questions idx [] s = Inr s"
| "forEach_response body questions idx (response # rest) s =
     (case js_index questions idx of
        None \<Rightarrow> forEach_response body questions (Suc idx) rest s
      | Some question \<Rightarrow>
          (case body s response question of
             Inl e \<Rightarrow> Inl e
           | Inr s' \<Rightarrow> forEach_response body questions (Suc idx) rest s'))"

section \<open>computeDifficultyScores\<close>

definition initial_score :: "tier \<Rightarrow> DifficultyScore" where
  "initial_score t =
     \<lparr>score_difficulty = t, total_questions = 0, correct = 0, accuracy = 0,
      avg_confidence = 0, avg_time = 0\<rparr>"

definition initial_scores :: DifficultyScores where
  "initial_scores =
     \<lparr>easy = initial_score Easy, moderate = initial_score Moderate, hard = initial_score Hard\<rparr>"

text \<open>The four updates of the loop body on the score object of the tier.\<close>

definition record_response :: "QuestionResponse \<Rightarrow> DifficultyScore \<Rightarrow> DifficultyScore" where
  "record_response response score =
     score\<lparr>total_questions := total_questions score + 1,
           correct := (if is_correct response then correct score + 1 else correct score),
           avg_confidence := avg_confidence score + user_confidence response,
           avg_time := avg_time score + total_time response\<rparr>"

definition update_tier :: "tier \<Rightarrow> (DifficultyScore \<Rightarrow> DifficultyScore) \<Rightarrow>
    DifficultyScores \<Rightarrow> DifficultyScores" where
  "update_tier t f scores =
     (case t of
        Easy \<Rightarrow> scores\<lparr>easy := f (easy scores)\<rparr>
      | Moderate \<Rightarrow> scores\<lparr>moderate := f (moderate scores)\<rparr>
      | Hard \<Rightarrow> scores\<lparr>hard := f (hard scores)\<rparr>)"

text \<open>The body of the loop for a response that has a question.\<close>

definition score_step :: "DifficultyScores \<Rightarrow> QuestionResponse \<Rightarrow> Question \<Rightarrow>
    error + DifficultyScores" where
  "score_step scores response question =
     (case tier_property (toLowerCase (difficulty question)) of
        Own t \<Rightarrow> Inr (update_tier t (record_response response) scores)
      | Inherited \<Rightarrow> Inr scores
      | Undefined \<Rightarrow> Inl TypeError)"

text \<open>The second loop: averages and percentages of a tier that has questions.\<close>

definition finalize_score :: "DifficultyScore \<Rightarrow> DifficultyScore" where
  "finalize_score score =
     (if total_questions score > 0
      then score\<lparr>accuracy := (real (correct score) / real (total_questions score)) * 100,
                 avg_confidence := avg_confidence score / real (total_questions score),
                 avg_time := avg_time score / real (total_questions score)\<rparr>
      else score)"

definition finalize_scores :: "DifficultyScores \<Rightarrow> DifficultyScores" where
  "finalize_scores scores =
     \<lparr>easy = finalize_score (easy scores),
      moderate = finalize_score (moderate scores),
      hard = finalize_score (hard scores)\<rparr>"

definition computeDifficultyScores :: "QuestionResponse list \<Rightarrow> Question list \<Rightarrow>
    error + DifficultyScores" where
  "computeDifficultyScores responses questions =
     (case forEach_response score_step questions 0 responses initial_scores of
        Inl e \<Rightarrow> Inl e
      | Inr scores \<Rightarrow> Inr (finalize_scores scores))"

section \<open>computeConceptMastery\<close>

text \<open>
  \<^verbatim>\<open>conceptMap\<close> is a \<^verbatim>\<open>Map\<close>: it iterates in the order in which the keys were first set,
  so it is an association list; \<^verbatim>\<open>set\<close> of a new key appends it.
\<close>

type_synonym conceptMap = "(string \<times> concept_data) list"

definition empty_tally :: tally where
  "empty_tally = \<lparr>n_correct = 0, n_total = 0\<rparr>"

definition empty_concept :: concept_data where
  "empty_concept = \<lparr>c_easy = empty_tally, c_moderate = empty_tally, c_hard = empty_tally\<rparr>"

definition count_response :: "QuestionResponse \<Rightarrow> tally \<Rightarrow> tally" where
  "count_response response t =
     t\<lparr>n_total := n_total t + 1,
       n_correct := (if is_correct response then n_correct t + 1 else n_correct t)\<rparr>"

definition update_concept :: "tier \<Rightarrow> (tally \<Rightarrow> tally) \<Rightarrow> concept_data \<Rightarrow> concept_data" where
  "update_concept t f d =
     (case t of
        Easy \<Rightarrow> d\<lparr>c_easy := f (c_easy d)\<rparr>
      | Moderate \<Rightarrow> d\<lparr>c_moderate := f (c_moderate d)\<rparr>
      | Hard \<Rightarrow> d\<lparr>c_hard := f (c_hard d)\<rparr>)"

definition concept_step :: "conceptMap \<Rightarrow> QuestionResponse \<Rightarrow> Question \<Rightarrow>
    error + conceptMap" where
  "concept_step m response question =
     (let c = topic question;
          d = toLowerCase (difficulty question);
          m' = (if map_of m c = None then AList.update c empty_concept m else m);
          conceptData = (case map_of m c of None \<Rightarrow> empty_concept | Some x \<Rightarrow> x)
      in case tier_property d of
           Own t \<Rightarrow> Inr (AList.update c (update_concept t (count_response response) conceptData) m')
         | Inherited \<Rightarrow> Inr m'
         | Undefined \<Rightarrow> Inl TypeError)"

definition tier_score :: "tally \<Rightarrow> real" where
  "tier_score t = (if n_total t > 0 then (real (n_correct t) / real (n_total t)) * 100 else 0)"

definition status_of :: "real \<Rightarrow> mastery_status" where
  "status_of overallScore =
     (if overallScore \<ge> 80 then Mastered
      else if overallScore \<ge> 50 then PartiallyUnderstood
      else NeedsRevision)"

text \<open>The callback of \<^verbatim>\<open>conceptMap.forEach\<close>: the entry pushed for one topic.\<close>

definition mastery_entry :: "string \<times> concept_data \<Rightarrow> ConceptMastery" where
  "mastery_entry e =
     (let data = snd e;
          easyScore = tier_score (c_easy data);
          moderateScore = tier_score (c_moderate data);
          hardScore = tier_score (c_hard data);
          totalQuestions = n_total (c_easy data) + n_total (c_moderate data) + n_total (c_hard data);
          overallScore = easyScore * 0.3 + moderateScore * 0.4 + hardScore * 0.3
      in \<lparr>concept = fst e, easy_score = easyScore, moderate_score = moderateScore,
          hard_score = hardScore, overall_score = overallScore,
          status = status_of overallScore, question_count = totalQuestions\<rparr>)"

definition by_overall_desc :: "ConceptMastery \<Rightarrow> ConceptMastery \<Rightarrow> real" where
  "by_overall_desc a b = overall_score b - overall_score a"

definition computeConceptMastery :: "QuestionResponse list \<Rightarrow> Question list \<Rightarrow>
    error + ConceptMastery list" where
  "computeConceptMastery responses questions =
     (case forEach_response concept_step questions 0 responses [] of
        Inl e \<Rightarrow> Inl e
      | Inr m \<Rightarrow> Inr (sort_by by_overall_desc (map mastery_entry m)))"

section \<open>computeOverallConfidenceScore\<close>

definition computeOverallConfidenceScore :: "QuestionResponse list \<Rightarrow> DifficultyScores \<Rightarrow> int" where
  "computeOverallConfidenceScore responses difficultyScores =
     (if length responses = 0 then 0
      else
        let totalCorrect = length (filter is_correct responses);
            accuracy = (real totalCorrect / real (length responses)) * 100;
            correctnessValues = map (\<lambda>r. if is_correct r then (1::real) else 0) responses;
            avgCorrectness = foldl (\<lambda>a b. a + b) 0 correctnessValues / real (length correctnessValues);
            variance = foldl (\<lambda>acc val. acc + (val - avgCorrectness) ^ 2) 0 correctnessValues
                         / real (length correctnessValues);
            consistency = max 0 (100 - sqrt variance * 100);
            avgTime = foldl (\<lambda>sum r. sum + total_time r) 0 responses / real (length responses);
            speedScore = max 0 (100 - (avgTime / 120) * 100);
            confidenceScore = accuracy * 0.6 + consistency * 0.25 + speedScore * 0.15
        in Math_round confidenceScore)"

section \<open>determineUnderstandingLevel\<close>

definition determineUnderstandingLevel :: "DifficultyScores \<Rightarrow> understanding_level" where
  "determineUnderstandingLevel difficultyScores =
     (let easyAccuracy = accuracy (easy difficultyScores);
          moderateAccuracy = accuracy (moderate difficultyScores);
          hardAccuracy = accuracy (hard difficultyScores)
      in if easyAccuracy \<ge> 80 \<and> moderateAccuracy \<ge> 70 \<and> hardAccuracy \<ge> 60 then JobReady
         else if easyAccuracy \<ge> 70 \<and> moderateAccuracy \<ge> 60 then Improving
         else Beginner)"

section \<open>generateRecommendations\<close>

text \<open>\<^verbatim>\<open>recommendations.push(msg)\<close> under a condition.\<close>

definition push_if :: "bool \<Rightarrow> string \<Rightarrow> string list \<Rightarrow> string list" where
  "push_if b msg recommendations = (if b then recommendations @ [msg] else recommendations)"

definition hard_message :: string where
  "hard_message =
     ''Practice complex problem-solving and multi-step reasoning to strengthen Hard-level performance.''"

definition moderate_message :: string where
  "moderate_message =
     ''Reinforce conceptual learning by working through more application-based scenarios.''"

definition easy_message :: string where
  "easy_message = ''Review fundamental definitions and terminology to solidify your foundation.''"

definition weak_message :: "string \<Rightarrow> string" where
  "weak_message topWeak =
     ''Focus revision efforts on: '' @ topWeak @ ''. These concepts require more attention.''"

definition overconfident_message :: string where
  "overconfident_message =
     ''Work on self-assessment calibration. Your confidence often exceeds your accuracy.''"

definition underconfident_message :: string where
  "underconfident_message =
     ''Build confidence in your knowledge. You're performing better than you think!''"

definition default_message :: string where
  "default_message =
     ''Excellent performance! Continue practicing advanced topics to maintain mastery.''"

definition generateRecommendations :: "DifficultyScores \<Rightarrow> ConceptMastery list \<Rightarrow> string list" where
  "generateRecommendations difficultyScores conceptMastery =
     (let easyAccuracy = accuracy (easy difficultyScores);
          moderateAccuracy = accuracy (moderate difficultyScores);
          hardAccuracy = accuracy (hard difficultyScores);
          r1 = push_if (hardAccuracy < 60) hard_message [];
          r2 = push_if (moderateAccuracy < 60) moderate_message r1;
          r3 = push_if (easyAccuracy < 70) easy_message r2;
          weakConcepts = filter (\<lambda>c. status c = NeedsRevision) conceptMastery;
          topWeak = join '', '' (map concept (take 2 weakConcepts));
          r4 = push_if (length weakConcepts > 0) (weak_message topWeak) r3;
          avgConfidence = (avg_confidence (easy difficultyScores)
                           + avg_confidence (moderate difficultyScores)
                           + avg_confidence (hard difficultyScores)) / 3;
          avgAccuracy = (easyAccuracy + moderateAccuracy + hardAccuracy) / 3;
          r5 = (if avgConfidence > avgAccuracy + 20 then r4 @ [overconfident_message]
                else if avgAccuracy > avgConfidence + 20 then r4 @ [underconfident_message]
                else r4);
          r6 = push_if (length r5 = 0) default_message r5
      in take 3 r6)"

section \<open>generateInterpretation\<close>

definition generateInterpretation :: "DifficultyScores \<Rightarrow> string" where
  "generateInterpretation difficultyScores =
     (let easyAccuracy = accuracy (easy difficultyScores);
          moderateAccuracy = accuracy (moderate difficultyScores);
          hardAccuracy = accuracy (hard difficultyScores)
      in if easyAccuracy \<ge> 80 \<and> moderateAccuracy \<ge> 80 \<and> hardAccuracy \<ge> 70
         then ''Industry-ready understanding with strong foundation and application skills.''
         else if easyAccuracy \<ge> 75 \<and> moderateAccuracy < 60
         then ''Basics clear, but concepts need more work. Focus on practical application.''
         else if moderateAccuracy \<ge> 75 \<and> hardAccuracy < 50
         then ''Conceptually strong, but lacks deep application experience. Practice complex scenarios.''
         else if easyAccuracy \<ge> 60 \<and> moderateAccuracy \<ge> 60 \<and> hardAccuracy \<ge> 50
         then ''Solid foundational understanding with room for refinement in advanced topics.''
         else if easyAccuracy < 50 \<or> moderateAccuracy < 50
         then ''Foundation needs strengthening. Review core concepts before advancing.''
         else ''Developing understanding across difficulty levels. Consistent practice will build mastery.'')"

section \<open>computeDifficultyAwareAnalytics\<close>

text \<open>
  The record that the main function returns. \<^verbatim>\<open>confidence_alignment\<close> is a sum divided
  by the number of responses and then rounded: without responses it is \<^verbatim>\<open>NaN\<close>, which is
  \<open>None\<close> here.
\<close>

record DifficultyAwareAnalytics =
  result_easy :: DifficultyScore
  result_moderate :: DifficultyScore
  result_hard :: DifficultyScore
  concept_mastery :: "ConceptMastery list"
  overall_confidence_score :: int
  overall_accuracy :: int
  overall_understanding_level :: understanding_level
  accuracy_consistency :: int
  time_consistency :: int
  confidence_alignment :: "int option"
  interpretation_text :: string
  recommendations :: "string list"

definition computeDifficultyAwareAnalytics :: "QuestionResponse list \<Rightarrow> Question list \<Rightarrow>
    error + DifficultyAwareAnalytics" where
  "computeDifficultyAwareAnalytics responses questions =
     (case computeDifficultyScores responses questions of
        Inl e \<Rightarrow> Inl e
      | Inr difficultyScores \<Rightarrow>
          (case computeConceptMastery responses questions of
             Inl e \<Rightarrow> Inl e
           | Inr conceptMastery \<Rightarrow>
               (let overallConfidenceScore =
                      computeOverallConfidenceScore responses difficultyScores;
                    understandingLevel = determineUnderstandingLevel difficultyScores;
                    interpretationText = generateInterpretation difficultyScores;
                    recommendations = generateRecommendations difficultyScores conceptMastery;
                    totalCorrect = length (filter is_correct responses);
                    overallAccuracy =
                      (if length responses > 0
                       then (real totalCorrect / real (length responses)) * 100 else 0);
                    accuracyConsistency =
                      100 - (max (max (accuracy (easy difficultyScores))
                                    (accuracy (moderate difficultyScores)))
                               (accuracy (hard difficultyScores))
                             - min (min (accuracy (easy difficultyScores))
                                     (accuracy (moderate difficultyScores)))
                                 (accuracy (hard difficultyScores)));
                    timeConsistency =
                      100 - min 100
                        ((\<bar>avg_time (easy difficultyScores) - avg_time (moderate difficultyScores)\<bar>
                          + \<bar>avg_time (moderate difficultyScores) - avg_time (hard difficultyScores)\<bar>)
                         / 2);
                    alignmentSum =
                      foldl (\<lambda>sum r. sum + (100 - \<bar>user_confidence r
                                                    - (if is_correct r then 80 else 40)\<bar>))
                        0 responses;
                    confidenceAlignment =
                      (if length responses = 0 then None
                       else Some (Math_round (alignmentSum / real (length responses))))
                in Inr \<lparr>result_easy = easy difficultyScores,
                        result_moderate = moderate difficultyScores,
                        result_hard = hard difficultyScores,
                        concept_mastery = conceptMastery,
                        overall_confidence_score = overallConfidenceScore,
                        overall_accuracy = Math_round overallAccuracy,
                        overall_understanding_level = understandingLevel,
                        accuracy_consistency = Math_round accuracyConsistency,
                        time_consistency = Math_round timeConsistency,
                        confidence_alignment = confidenceAlignment,
                        interpretation_text = interpretationText,
                        recommendations = recommendations\<rparr>)))"

section \<open>Question generation\<close>

text \<open>
  Modelled from the spec: the structural sub-format of a question (section 3 and the
  glossary). The generation pipeline is backend code that is not among the sources.
\<close>

datatype segment = MCQ | MCQ_REASONING | ASSERTION_REASON

text \<open>
  Modelled from the spec: the Question record of section 3 as the generation pipeline
  produces it: identity, prompt, the labelled options, the correct-answer label, topic, tier,
  segment and the flag \<^verbatim>\<open>reasoning_required\<close>.
\<close>

record GeneratedQuestion =
  question_id :: string
  question :: string
  options :: "string list"
  correct_answer :: string
  gq_topic :: string
  gq_difficulty :: tier
  segment :: segment
  reasoning_required :: bool

text \<open>
  Modelled from the spec: the structured violations of section 4.1, each naming a field
  with the expected and the actual value.
\<close>

datatype violation =
    SegmentViolation segment segment
  | OptionCountViolation nat nat
  | OptionLabelsViolation "string list" "string list"
  | CorrectAnswerViolation "string list" string
  | OptionMeaningViolation "string list"
  | ReasoningRequiredViolation bool bool
  | PromptViolation string

text \<open>
  Modelled from the spec: the two checks of section 4.1 on the wording of a question, which
  the spec describes but does not define: whether a prompt has an assertion and a reason
  component, and whether four options are the fixed-meaning options of an assertion-reason
  question. They are parameters of the validator.
\<close>

record text_checks =
  has_assertion_and_reason :: "string \<Rightarrow> bool"
  fixed_meaning_options :: "string list \<Rightarrow> bool"

text \<open>
  Modelled from the spec: step 1 of section 4.3. Tier easy or moderate requires MCQ; tier
  hard requires MCQ_REASONING at an even slot and ASSERTION_REASON at an odd one.
\<close>

definition required_segment :: "tier \<Rightarrow> nat \<Rightarrow> segment" where
  "required_segment t i =
     (case t of
        Easy \<Rightarrow> MCQ
      | Moderate \<Rightarrow> MCQ
      | Hard \<Rightarrow> if even i then MCQ_REASONING else ASSERTION_REASON)"

text \<open>
  Modelled from the spec: the option labels A to D of section 3.
\<close>

definition labels :: "string list" where
  "labels = [''A'', ''B'', ''C'', ''D'']"

text \<open>
  Modelled from the spec: the label that prefixes an option text (section 3).
\<close>

definition option_labels :: "string list \<Rightarrow> string list" where
  "option_labels os = map (take 1) os"

text \<open>
  Modelled from the spec: a violation is listed when its rule is broken (section 4.1).
\<close>

definition violation_if :: "bool \<Rightarrow> violation \<Rightarrow> violation list" where
  "violation_if b v = (if b then [v] else [])"

text \<open>
  Modelled from the spec: the validator of section 4.1. It returns the list of violations
  of a draft against the rules of its tier and slot: the required segment, exactly four
  options labelled A to D in order, a correct-answer label among them, the flag
  \<^verbatim>\<open>reasoning_required\<close> exactly for MCQ_REASONING, and for ASSERTION_REASON the
  fixed-meaning options and a prompt with an assertion and a reason.
\<close>

definition validate_question :: "text_checks \<Rightarrow> tier \<Rightarrow> nat \<Rightarrow> GeneratedQuestion \<Rightarrow>
    violation list" where
  "validate_question chk t i q =
     (let seg = required_segment t i;
          wants_reasoning = (seg = MCQ_REASONING)
      in violation_if (segment q \<noteq> seg) (SegmentViolation seg (segment q))
         @ violation_if (length (options q) \<noteq> 4) (OptionCountViolation 4 (length (options q)))
         @ violation_if (option_labels (options q) \<noteq> labels)
             (OptionLabelsViolation labels (option_labels (options q)))
         @ violation_if (correct_answer q \<notin> set labels
                          \<or> correct_answer q \<notin> set (option_labels (options q)))
             (CorrectAnswerViolation labels (correct_answer q))
         @ violation_if (reasoning_required q \<noteq> wants_reasoning)
             (ReasoningRequiredViolation wants_reasoning (reasoning_required q))
         @ violation_if (seg = ASSERTION_REASON \<and> \<not> fixed_meaning_options chk (options q))
             (OptionMeaningViolation (options q))
         @ violation_if (seg = ASSERTION_REASON \<and> \<not> has_assertion_and_reason chk (question q))
             (PromptViolation (question q)))"

text \<open>
  Modelled from the spec: the text of an option without its label prefix (section 4.2).
\<close>

definition strip_label :: "string \<Rightarrow> string" where
  "strip_label s = (if take 1 s \<in> set labels \<and> take 1 (drop 1 s) = '')'' then drop 2 s else s)"

text \<open>
  Modelled from the spec: the auto-fixer's re-lettering of four options into canonical order
  (section 4.2).
\<close>

definition relabel :: "string list \<Rightarrow> string list" where
  "relabel os = map (\<lambda>(l, s). l @ '')'' @ strip_label s) (zip labels os)"

text \<open>
  Modelled from the spec: the auto-fixer's coercion of a correct answer given as the text
  of an option into the label of that option (section 4.2).
\<close>

definition coerce_answer :: "string list \<Rightarrow> string \<Rightarrow> string" where
  "coerce_answer os a =
     (case filter (\<lambda>(l, s). s = a \<or> strip_label s = a) (zip labels os) of
        [] \<Rightarrow> a
      | (l, s) # _ \<Rightarrow> l)"

text \<open>
  Modelled from the spec: the kinds of violation that the auto-fixer of section 4.2 can
  repair, read off the violation list it is given.
\<close>

fun is_labels_violation :: "violation \<Rightarrow> bool" where
  "is_labels_violation (OptionLabelsViolation expected actual) = True"
| "is_labels_violation v = False"

fun is_answer_violation :: "violation \<Rightarrow> bool" where
  "is_answer_violation (CorrectAnswerViolation expected actual) = True"
| "is_answer_violation v = False"

fun is_reasoning_violation :: "violation \<Rightarrow> bool" where
  "is_reasoning_violation (ReasoningRequiredViolation expected actual) = True"
| "is_reasoning_violation v = False"

text \<open>
  Modelled from the spec: the auto-fixer of section 4.2. Given a draft and its violation
  list, it re-letters the options when their labels are out of order or missing, coerces a
  correct answer given as option text into its label, and sets the flag
  \<^verbatim>\<open>reasoning_required\<close> to what the tier and slot require; it returns the repaired
  question with the violations that remain. It invents no option text and does not touch the
  prompt or the segment.
\<close>

definition auto_fix_question :: "text_checks \<Rightarrow> tier \<Rightarrow> nat \<Rightarrow> GeneratedQuestion \<Rightarrow>
    violation list \<Rightarrow> GeneratedQuestion \<times> violation list" where
  "auto_fix_question chk t i q violations =
     (let os = (if list_ex is_labels_violation violations \<and> length (options q) = 4
                then relabel (options q) else options q);
          a = (if list_ex is_answer_violation violations
               then coerce_answer (options q) (correct_answer q) else correct_answer q);
          r = (if list_ex is_reasoning_violation violations
               then required_segment t i = MCQ_REASONING else reasoning_required q);
          q' = q\<lparr>options := os, correct_answer := a, reasoning_required := r\<rparr>
      in (q', validate_question chk t i q'))"

text \<open>
  Modelled from the spec: step 3 of section 4.3. Validate; when there are violations, run
  the auto-fixer and validate again; a draft that is still invalid is given up.
\<close>

definition validate_and_fix_question :: "text_checks \<Rightarrow> tier \<Rightarrow> nat \<Rightarrow> GeneratedQuestion \<Rightarrow>
    GeneratedQuestion option" where
  "validate_and_fix_question chk t i draft =
     (let violations = validate_question chk t i draft
      in if violations = [] then Some draft
         else case auto_fix_question chk t i draft violations of
                (q', residual) \<Rightarrow> if residual = [] then Some q' else None)"

text \<open>
  Modelled from the spec: the static fallback question of step 5 of section 4.3, pre-built
  for a pair of tier and segment and flagged as a fallback in its identity. The spec does
  not give its wording.
\<close>

definition fallback_question :: "tier \<Rightarrow> segment \<Rightarrow> string \<Rightarrow> GeneratedQuestion" where
  "fallback_question t seg tp =
     \<lparr>question_id = ''fallback'',
      question = (if seg = ASSERTION_REASON
                  then ''Assertion (A): the topic has core concepts. Reason (R): they can be reviewed.''
                  else ''Which statement about the topic is correct?''),
      options = [''A) First'', ''B) Second'', ''C) Third'', ''D) Fourth''],
      correct_answer = ''A'',
      gq_topic = tp,
      gq_difficulty = t,
      segment = seg,
      reasoning_required = (seg = MCQ_REASONING)\<rparr>"

text \<open>
  Modelled from the spec: the external draft generator of section 4.3, a black box that is
  given the tier, the segment and the topic. Its first argument is the number of calls made
  before, so that every call may answer differently.
\<close>

type_synonym generator = "nat \<Rightarrow> tier \<Rightarrow> segment \<Rightarrow> string \<Rightarrow> GeneratedQuestion"

text \<open>
  Modelled from the spec: the retry bound of step 4 of section 4.3, three attempts.
\<close>

definition max_retries :: nat where
  "max_retries = 3"

text \<open>
  Modelled from the spec: steps 2 to 5 of section 4.3 for one slot. Every attempt is a new
  call of the generator; the first draft that is valid, as drafted or after repair, is
  taken; when the attempts are used up, the fallback question is. The second component is
  the number of generator calls made so far.
\<close>

fun generate_slot :: "text_checks \<Rightarrow> generator \<Rightarrow> tier \<Rightarrow> string \<Rightarrow> nat \<Rightarrow> nat \<Rightarrow> nat \<Rightarrow>
    GeneratedQuestion \<times> nat" where
  "generate_slot chk gen t tp i 0 calls = (fallback_question t (required_segment t i) tp, calls)"
| "generate_slot chk gen t tp i (Suc attempts) calls =
     (case validate_and_fix_question chk t i (gen calls t (required_segment t i) tp) of
        Some q \<Rightarrow> (q, Suc calls)
      | None \<Rightarrow> generate_slot chk gen t tp i attempts (Suc calls))"

text \<open>
  Modelled from the spec: the slots \<open>i, i + 1, \<dots>\<close> of a batch, in order (section 4.3).
\<close>

fun generate_from :: "text_checks \<Rightarrow> generator \<Rightarrow> tier \<Rightarrow> string \<Rightarrow> nat \<Rightarrow> nat \<Rightarrow> nat \<Rightarrow>
    GeneratedQuestion list" where
  "generate_from chk gen t tp i 0 calls = []"
| "generate_from chk gen t tp i (Suc k) calls =
     (case generate_slot chk gen t tp i max_retries calls of
        (q, calls') \<Rightarrow> q # generate_from chk gen t tp (Suc i) k calls')"

text \<open>
  Modelled from the spec: the orchestrator of section 4.3, which produces the batch of the
  requested size for a topic and a tier.
\<close>

definition generate_batch :: "text_checks \<Rightarrow> generator \<Rightarrow> tier \<Rightarrow> string \<Rightarrow> nat \<Rightarrow>
    GeneratedQuestion list" where
  "generate_batch chk gen t tp n = generate_from chk gen t tp 0 n 0"

section \<open>Notions used in the statements\<close>

text \<open>
  The loop visits the pairs of a response and the question at its position. \<open>fold_pairs\<close>
  runs a loop body over such pairs; the loop of the code is shown below to be this fold over
  \<open>zip responses questions\<close>.
\<close>

fun fold_pairs :: "('s \<Rightarrow> QuestionResponse \<Rightarrow> Question \<Rightarrow> error + 's) \<Rightarrow> 's \<Rightarrow>
    (QuestionResponse \<times> Question) list \<Rightarrow> error + 's" where
  "fold_pairs body s [] = Inr s"
| "fold_pairs body s (p # ps) =
     (case body s (fst p) (snd p) of Inl e \<Rightarrow> Inl e | Inr s' \<Rightarrow> fold_pairs body s' ps)"

text \<open>The property that the lower-cased difficulty of a question selects.\<close>

definition tier_of :: "Question \<Rightarrow> property" where
  "tier_of q = tier_property (toLowerCase (difficulty q))"

text \<open>The pairs bucketed into a tier, and into a tier of a topic.\<close>

definition tier_bucket :: "tier \<Rightarrow> (QuestionResponse \<times> Question) list \<Rightarrow>
    (QuestionResponse \<times> Question) list" where
  "tier_bucket t ps = filter (\<lambda>p. tier_of (snd p) = Own t) ps"

definition topic_bucket :: "string \<Rightarrow> tier \<Rightarrow> (QuestionResponse \<times> Question) list \<Rightarrow>
    (QuestionResponse \<times> Question) list" where
  "topic_bucket c t ps = filter (\<lambda>p. topic (snd p) = c \<and> tier_of (snd p) = Own t) ps"

definition tier_score_of :: "tier \<Rightarrow> DifficultyScores \<Rightarrow> DifficultyScore" where
  "tier_score_of t s = (case t of Easy \<Rightarrow> easy s | Moderate \<Rightarrow> moderate s | Hard \<Rightarrow> hard s)"







text \<open>
  The recommendation candidates in the words of the specification: at most one message for
  each of the five conditions, in the fixed order.
\<close>

definition opt :: "bool \<Rightarrow> 'a \<Rightarrow> 'a list" where
  "opt b x = (if b then [x] else [])"

definition spec_candidates :: "DifficultyScores \<Rightarrow> ConceptMastery list \<Rightarrow> string list" where
  "spec_candidates ds cms =
     opt (accuracy (hard ds) < 60) hard_message
     @ opt (accuracy (moderate ds) < 60) moderate_message
     @ opt (accuracy (easy ds) < 70) easy_message
     @ opt (filter (\<lambda>c. status c = NeedsRevision) cms \<noteq> [])
         (weak_message
           (join '', '' (map concept (take 2 (filter (\<lambda>c. status c = NeedsRevision) cms)))))
     @ (let avgConfidence = (avg_confidence (easy ds) + avg_confidence (moderate ds)
                              + avg_confidence (hard ds)) / 3;
            avgAccuracy = (accuracy (easy ds) + accuracy (moderate ds) + accuracy (hard ds)) / 3
        in if avgConfidence > avgAccuracy + 20 then [overconfident_message]
           else if avgAccuracy > avgConfidence + 20 then [underconfident_message]
           else [])"

text \<open>The two scenarios of the specification.\<close>

definition scenario_responses :: "QuestionResponse list" where
  "scenario_responses =
     [\<lparr>is_correct = True, user_confidence = 90, total_time = 10\<rparr>,
      \<lparr>is_correct = False, user_confidence = 40, total_time = 15\<rparr>,
      \<lparr>is_correct = True, user_confidence = 70, total_time = 20\<rparr>]"

definition scenario_questions :: "string \<Rightarrow> string \<Rightarrow> string \<Rightarrow> Question list" where
  "scenario_questions t1 t2 t3 =
     [\<lparr>topic = t1, difficulty = ''easy''\<rparr>, \<lparr>topic = t2, difficulty = ''easy''\<rparr>,
      \<lparr>topic = t3, difficulty = ''moderate''\<rparr>]"


text \<open>Inputs on which the theorems below are instantiated.\<close>

definition sample_responses :: "QuestionResponse list" where
  "sample_responses =
     [\<lparr>is_correct = True, user_confidence = 80, total_time = 50\<rparr>,
      \<lparr>is_correct = False, user_confidence = 80, total_time = 70\<rparr>]"

definition sample_questions :: "Question list" where
  "sample_questions =
     [\<lparr>topic = ''loops'', difficulty = ''Easy''\<rparr>, \<lparr>topic = ''loops'', difficulty = ''HARD''\<rparr>]"

definition mismatch_responses :: "QuestionResponse list" where
  "mismatch_responses =
     [\<lparr>is_correct = True, user_confidence = 80, total_time = 50\<rparr>,
      \<lparr>is_correct = False, user_confidence = 80, total_time = 70\<rparr>]"

definition mismatch_questions :: "Question list" where
  "mismatch_questions = [\<lparr>topic = ''loops'', difficulty = ''easy''\<rparr>]"

definition sample_scores :: DifficultyScores where
  "sample_scores =
     \<lparr>easy = (initial_score Easy)\<lparr>accuracy := 85\<rparr>,
      moderate = (initial_score Moderate)\<lparr>accuracy := 75\<rparr>,
      hard = (initial_score Hard)\<lparr>accuracy := 65\<rparr>\<rparr>"

text \<open>
  A generator as in the last scenario of section 8 of the specification, which answers every
  request with an ASSERTION_REASON draft, and wording checks that accept every text.
\<close>

definition stubborn_generator :: generator where
  "stubborn_generator calls t seg tp = fallback_question t ASSERTION_REASON tp"

definition lenient_checks :: text_checks where
  "lenient_checks =
     \<lparr>has_assertion_and_reason = (\<lambda>s. True), fixed_meaning_options = (\<lambda>os. True)\<rparr>"

text \<open>
  The counters of a list of pairs, the counters of a topic per tier, and the concept map that
  the loop builds: the topics in the order in which they are first met, each with the
  counters of its pairs.
\<close>

definition tally_of :: "(QuestionResponse \<times> Question) list \<Rightarrow> tally" where
  "tally_of ps = \<lparr>n_correct = length (filter (\<lambda>p. is_correct (fst p)) ps), n_total = length ps\<rparr>"

definition data_of :: "(QuestionResponse \<times> Question) list \<Rightarrow> string \<Rightarrow> concept_data" where
  "data_of ps c =
     \<lparr>c_easy = tally_of (topic_bucket c Easy ps),
      c_moderate = tally_of (topic_bucket c Moderate ps),
      c_hard = tally_of (topic_bucket c Hard ps)\<rparr>"

definition first_seen :: "'a list \<Rightarrow> 'a list" where
  "first_seen xs = rev (remdups (rev xs))"

definition topics_of :: "(QuestionResponse \<times> Question) list \<Rightarrow> string list" where
  "topics_of ps = map (\<lambda>p. topic (snd p)) ps"

definition concept_graph :: "(QuestionResponse \<times> Question) list \<Rightarrow> conceptMap" where
  "concept_graph ps = map (\<lambda>c. (c, data_of ps c)) (first_seen (topics_of ps))"

text \<open>The position at which a value is first met in a list.\<close>

definition first_index :: "'a list \<Rightarrow> 'a \<Rightarrow> nat" where
  "first_index xs x = length (takeWhile (\<lambda>y. y \<noteq> x) xs)"

text \<open>
  The order of the returned list: a higher overall score first, and among equal scores the
  topic that is met first.
\<close>

definition encounter_order :: "string list \<Rightarrow> ConceptMastery \<Rightarrow> ConceptMastery \<Rightarrow> bool" where
  "encounter_order T a b \<longleftrightarrow> first_index T (concept a) < first_index T (concept b)"

definition output_order :: "string list \<Rightarrow> ConceptMastery \<Rightarrow> ConceptMastery \<Rightarrow> bool" where
  "output_order T a b \<longleftrightarrow>
     overall_score a > overall_score b
     \<or> (overall_score a = overall_score b \<and> encounter_order T a b)"

definition tie_responses :: "QuestionResponse list" where
  "tie_responses =
     [\<lparr>is_correct = True, user_confidence = 60, total_time = 20\<rparr>,
      \<lparr>is_correct = True, user_confidence = 60, total_time = 20\<rparr>]"

definition tie_questions :: "Question list" where
  "tie_questions =
     [\<lparr>topic = ''trees'', difficulty = ''easy''\<rparr>, \<lparr>topic = ''graphs'', difficulty = ''easy''\<rparr>]"

section \<open>The loop as a fold over the paired positions\<close>

lemma forEach_response_fold:
  "forEach_response body qs idx rs s = fold_pairs body s (zip rs (drop idx qs))"
proof (induction rs arbitrary: idx s)
  case Nil
  show ?case by simp
next
  case (Cons r rs)
  show ?case
  proof (cases "idx < length qs")
    case True
    then have "drop idx qs = qs ! idx # drop (Suc idx) qs"
      by (simp add: Cons_nth_drop_Suc)
    with True Cons.IH show ?thesis
      by (simp add: js_index_def split: sum.splits)
  next
    case False
    with Cons.IH [of "Suc idx" s] show ?thesis
      by (simp add: js_index_def)
  qed
qed

lemma fold_pairs_snoc:
  "fold_pairs body s (ps @ [p]) =
     (case fold_pairs body s ps of Inl e \<Rightarrow> Inl e | Inr s' \<Rightarrow> body s' (fst p) (snd p))"
  by (induction ps arbitrary: s) (auto split: sum.splits)

lemma zip_take_both: "zip (take (length qs) rs) (take (length rs) qs) = zip rs qs"
proof (induction rs arbitrary: qs)
  case Nil
  show ?case by simp
next
  case (Cons r rs)
  show ?case
  proof (cases qs)
    case Nil
    then show ?thesis by simp
  next
    case (Cons q qs')
    with Cons.IH [of qs'] show ?thesis by simp
  qed
qed

lemma fold_pairs_fails:
  assumes "\<And>s r q. (\<exists>e. body s r q = Inl e) \<longleftrightarrow> bad q"
  shows "(\<exists>e. fold_pairs body s ps = Inl e) \<longleftrightarrow> (\<exists>p \<in> set ps. bad (snd p))"
proof (induction ps arbitrary: s)
  case Nil
  show ?case by simp
next
  case (Cons p ps)
  show ?case
  proof (cases "body s (fst p) (snd p)")
    case (Inl e)
    then have "bad (snd p)" using assms by blast
    with Inl show ?thesis by simp
  next
    case (Inr s')
    then have "\<not> bad (snd p)" using assms [of s "fst p" "snd p"] by simp
    with Inr Cons.IH [of s'] show ?thesis by simp
  qed
qed

lemma score_step_fails: "(\<exists>e. score_step s r q = Inl e) \<longleftrightarrow> tier_of q = Undefined"
  by (simp add: score_step_def tier_of_def split: property.splits)

lemma concept_step_fails: "(\<exists>e. concept_step m r q = Inl e) \<longleftrightarrow> tier_of q = Undefined"
  by (simp add: concept_step_def tier_of_def Let_def split: property.splits)

lemma computeDifficultyScores_fails:
  "(\<exists>e. computeDifficultyScores rs qs = Inl e) \<longleftrightarrow>
     (\<exists>p \<in> set (zip rs qs). tier_of (snd p) = Undefined)"
proof -
  have "(\<exists>e. computeDifficultyScores rs qs = Inl e) \<longleftrightarrow>
        (\<exists>e. fold_pairs score_step initial_scores (zip rs qs) = Inl e)"
    by (simp add: computeDifficultyScores_def forEach_response_fold split: sum.splits)
  then show ?thesis
    by (simp only: fold_pairs_fails [of score_step "\<lambda>q. tier_of q = Undefined",
          OF score_step_fails])
qed

lemma computeConceptMastery_fails:
  "(\<exists>e. computeConceptMastery rs qs = Inl e) \<longleftrightarrow>
     (\<exists>p \<in> set (zip rs qs). tier_of (snd p) = Undefined)"
proof -
  have "(\<exists>e. computeConceptMastery rs qs = Inl e) \<longleftrightarrow>
        (\<exists>e. fold_pairs concept_step [] (zip rs qs) = Inl e)"
    by (simp add: computeConceptMastery_def forEach_response_fold split: sum.splits)
  then show ?thesis
    by (simp only: fold_pairs_fails [of concept_step "\<lambda>q. tier_of q = Undefined",
          OF concept_step_fails])
qed

lemma computeDifficultyScores_take:
  "computeDifficultyScores (take (length qs) rs) (take (length rs) qs) =
     computeDifficultyScores rs qs"
  by (simp add: computeDifficultyScores_def forEach_response_fold zip_take_both)

lemma computeConceptMastery_take:
  "computeConceptMastery (take (length qs) rs) (take (length rs) qs) =
     computeConceptMastery rs qs"
  by (simp add: computeConceptMastery_def forEach_response_fold zip_take_both)

lemma isl_iff_Inl: "isl x \<longleftrightarrow> (\<exists>e. x = Inl e)"
  by (cases x) simp_all

lemma analytics_returns:
  "isl (computeDifficultyAwareAnalytics rs qs) \<longleftrightarrow>
     isl (computeDifficultyScores rs qs) \<or> isl (computeConceptMastery rs qs)"
  by (simp add: computeDifficultyAwareAnalytics_def Let_def split: sum.splits)

lemma scoring_returns:
  assumes "\<not> (\<exists>p \<in> set (zip rs qs). tier_of (snd p) = Undefined)"
  shows "\<not> isl (computeDifficultyScores rs qs) \<and> \<not> isl (computeConceptMastery rs qs)
    \<and> \<not> isl (computeDifficultyAwareAnalytics rs qs)"
proof -
  have a: "\<not> isl (computeDifficultyScores rs qs)"
    using assms computeDifficultyScores_fails [of rs qs] by (simp add: isl_iff_Inl)
  have b: "\<not> isl (computeConceptMastery rs qs)"
    using assms computeConceptMastery_fails [of rs qs] by (simp add: isl_iff_Inl)
  from a b show ?thesis
    by (simp add: analytics_returns)
qed

section \<open>Difficulty scores, tier by tier\<close>

lemma score_step_tier:
  assumes "score_step s r q = Inr s'"
  shows "tier_score_of t s' =
     (if tier_of q = Own t then record_response r (tier_score_of t s) else tier_score_of t s)"
  using assms
  by (auto simp: score_step_def tier_of_def update_tier_def tier_score_of_def
      split: property.splits tier.splits)

lemma fold_pairs_score_tier:
  assumes "fold_pairs score_step s ps = Inr s'"
  shows "tier_score_of t s' =
     fold (\<lambda>p. record_response (fst p)) (tier_bucket t ps) (tier_score_of t s)"
  using assms
proof (induction ps arbitrary: s)
  case Nil
  then show ?case by (simp add: tier_bucket_def)
next
  case (Cons p ps)
  from Cons.prems obtain s1 where s1: "score_step s (fst p) (snd p) = Inr s1"
    and rest: "fold_pairs score_step s1 ps = Inr s'"
    by (auto split: sum.splits)
  from Cons.IH [OF rest] score_step_tier [OF s1, of t] show ?case
    by (simp add: tier_bucket_def)
qed

lemma fold_record_total:
  "total_questions (fold (\<lambda>p. record_response (fst p)) ps sc) = total_questions sc + length ps"
  by (induction ps arbitrary: sc) (simp_all add: record_response_def)

lemma finalize_score_total: "total_questions (finalize_score sc) = total_questions sc"
  by (simp add: finalize_score_def)

lemma tier_score_of_finalize:
  "tier_score_of t (finalize_scores s) = finalize_score (tier_score_of t s)"
  by (cases t) (simp_all add: tier_score_of_def finalize_scores_def)

lemma tier_score_of_initial: "tier_score_of t initial_scores = initial_score t"
  by (cases t) (simp_all add: tier_score_of_def initial_scores_def)

lemma computeDifficultyScores_tier:
  assumes "computeDifficultyScores rs qs = Inr out"
  shows "tier_score_of t out =
     finalize_score
       (fold (\<lambda>p. record_response (fst p)) (tier_bucket t (zip rs qs)) (initial_score t))"
proof -
  from assms obtain s where s: "fold_pairs score_step initial_scores (zip rs qs) = Inr s"
    and out: "out = finalize_scores s"
    by (auto simp: computeDifficultyScores_def forEach_response_fold split: sum.splits)
  show ?thesis
    by (simp add: out tier_score_of_finalize fold_pairs_score_tier [OF s] tier_score_of_initial)
qed

lemma tier_total:
  assumes "computeDifficultyScores rs qs = Inr out"
  shows "total_questions (tier_score_of t out) = length (tier_bucket t (zip rs qs))"
  by (simp add: computeDifficultyScores_tier [OF assms] finalize_score_total fold_record_total
      initial_score_def)

lemma tier_zero:
  assumes "computeDifficultyScores rs qs = Inr out"
    and "total_questions (tier_score_of t out) = 0"
  shows "accuracy (tier_score_of t out) = 0 \<and> avg_confidence (tier_score_of t out) = 0
    \<and> avg_time (tier_score_of t out) = 0"
proof -
  from assms have "tier_bucket t (zip rs qs) = []"
    by (simp add: tier_total)
  then show ?thesis
    by (simp add: computeDifficultyScores_tier [OF assms(1)] finalize_score_def initial_score_def)
qed

lemmas eval_scores =
  computeDifficultyScores_def js_index_def score_step_def toLowerCase_def toLowerCase_char_def
  tier_property_def update_tier_def record_response_def initial_scores_def initial_score_def
  finalize_scores_def finalize_score_def

section \<open>Sorting, the entries of the mastery list\<close>

lemma set_insert_by: "set (insert_by cmp x xs) = insert x (set xs)"
  by (induction xs) auto

lemma set_sort_by: "set (sort_by cmp xs) = set xs"
  by (induction xs) (simp_all add: sort_by_def set_insert_by)

lemma status_of_cases:
  "(status_of x = Mastered \<longleftrightarrow> x \<ge> 80)
   \<and> (status_of x = PartiallyUnderstood \<longleftrightarrow> 50 \<le> x \<and> x < 80)
   \<and> (status_of x = NeedsRevision \<longleftrightarrow> x < 50)"
  by (auto simp: status_of_def)

lemma mastery_entry_status:
  "status (mastery_entry e) = status_of (overall_score (mastery_entry e))"
  by (simp add: mastery_entry_def Let_def)

lemma mastery_entry_overall:
  "overall_score (mastery_entry e) =
     easy_score (mastery_entry e) * 0.3 + moderate_score (mastery_entry e) * 0.4
       + hard_score (mastery_entry e) * 0.3"
  by (simp add: mastery_entry_def Let_def)

lemma computeConceptMastery_entries:
  assumes "computeConceptMastery rs qs = Inr out" and "cm \<in> set out"
  obtains m e where "fold_pairs concept_step [] (zip rs qs) = Inr m"
    and "e \<in> set m" and "cm = mastery_entry e"
  using assms
  by (auto simp: computeConceptMastery_def forEach_response_fold set_sort_by split: sum.splits)

lemmas eval_mastery =
  computeConceptMastery_def js_index_def concept_step_def toLowerCase_def toLowerCase_char_def
  tier_property_def update_concept_def count_response_def empty_concept_def empty_tally_def
  mastery_entry_def tier_score_def status_of_def sort_by_def by_overall_desc_def

section \<open>The overall confidence score\<close>







section \<open>Recommendations\<close>

lemma generateRecommendations_candidates:
  "generateRecommendations ds cms =
     take 3 (if spec_candidates ds cms = [] then [default_message] else spec_candidates ds cms)"
  by (simp add: generateRecommendations_def spec_candidates_def push_if_def opt_def Let_def)

section \<open>The concept map, as a function of the paired positions\<close>

lemma first_seen_snoc:
  "first_seen (xs @ [x]) = (if x \<in> set xs then first_seen xs else first_seen xs @ [x])"
  by (simp add: first_seen_def)

lemma set_first_seen: "set (first_seen xs) = set xs"
  by (simp add: first_seen_def)

lemma distinct_first_seen: "distinct (first_seen xs)"
  by (simp add: first_seen_def)

lemma map_of_graph:
  "map_of (map (\<lambda>k. (k, f k)) ks) c = (if c \<in> set ks then Some (f c) else None)"
  by (induction ks) auto

lemma update_graph_new:
  assumes "c \<notin> set ks"
  shows "AList.update c v (map (\<lambda>k. (k, f k)) ks) = map (\<lambda>k. (k, f k)) ks @ [(c, v)]"
  using assms by (induction ks) auto

lemma update_graph_old:
  assumes "c \<in> set ks" and "distinct ks"
  shows "AList.update c v (map (\<lambda>k. (k, f k)) ks) = map (\<lambda>k. (k, if k = c then v else f k)) ks"
  using assms
proof (induction ks)
  case Nil
  then show ?case by simp
next
  case (Cons k ks)
  show ?case
  proof (cases "k = c")
    case True
    with Cons.prems have "c \<notin> set ks" by simp
    then have "map (\<lambda>k. (k, if k = c then v else f k)) ks = map (\<lambda>k. (k, f k)) ks"
      by (intro map_cong) auto
    with True show ?thesis by simp
  next
    case False
    with Cons show ?thesis by simp
  qed
qed

lemma update_last_entry:
  assumes "map_of al k = None"
  shows "AList.update k v (al @ [(k, w)]) = al @ [(k, v)]"
  using assms by (induction al) (auto split: if_splits)

lemma topic_bucket_snoc:
  "topic_bucket c t (ps @ [p]) =
     (if topic (snd p) = c \<and> tier_of (snd p) = Own t then topic_bucket c t ps @ [p]
      else topic_bucket c t ps)"
  by (simp add: topic_bucket_def)

lemma tally_of_snoc: "tally_of (ps @ [p]) = count_response (fst p) (tally_of ps)"
  by (simp add: tally_of_def count_response_def)

lemma data_of_snoc_other:
  assumes "topic (snd p) \<noteq> c"
  shows "data_of (ps @ [p]) c = data_of ps c"
  using assms by (simp add: data_of_def topic_bucket_snoc)

lemma data_of_snoc_same:
  "data_of (ps @ [p]) (topic (snd p)) =
     (case tier_of (snd p) of
        Own t \<Rightarrow> update_concept t (count_response (fst p)) (data_of ps (topic (snd p)))
      | Inherited \<Rightarrow> data_of ps (topic (snd p))
      | Undefined \<Rightarrow> data_of ps (topic (snd p)))"
  by (simp add: data_of_def topic_bucket_snoc tally_of_snoc update_concept_def
      split: property.splits tier.splits)

lemma data_of_snoc_inherited:
  assumes "tier_of (snd p) = Inherited"
  shows "data_of (ps @ [p]) c = data_of ps c"
  using assms by (simp add: data_of_def topic_bucket_snoc)

lemma data_of_unseen:
  assumes "c \<notin> set (topics_of ps)"
  shows "data_of ps c = empty_concept"
proof -
  have "topic_bucket c t ps = []" for t
    using assms by (auto simp: topic_bucket_def topics_of_def filter_empty_conv)
  then show ?thesis
    by (simp add: data_of_def tally_of_def empty_concept_def empty_tally_def)
qed

lemma concept_step_unfold:
  "concept_step m r q =
     (case tier_of q of
        Own t \<Rightarrow>
          Inr (AList.update (topic q)
                (update_concept t (count_response r)
                  (case map_of m (topic q) of None \<Rightarrow> empty_concept | Some x \<Rightarrow> x))
                (if map_of m (topic q) = None then AList.update (topic q) empty_concept m else m))
      | Inherited \<Rightarrow>
          Inr (if map_of m (topic q) = None then AList.update (topic q) empty_concept m else m)
      | Undefined \<Rightarrow> Inl TypeError)"
  by (simp add: concept_step_def Let_def tier_of_def)

lemma concept_step_graph:
  assumes "concept_step (concept_graph ps) (fst p) (snd p) = Inr m"
  shows "m = concept_graph (ps @ [p])"
proof -
  let ?c = "topic (snd p)"
  let ?ks = "first_seen (topics_of ps)"
  let ?new = "data_of (ps @ [p]) ?c"
  have look: "(case map_of (concept_graph ps) ?c of None \<Rightarrow> empty_concept | Some x \<Rightarrow> x)
      = data_of ps ?c"
    by (simp add: concept_graph_def map_of_graph set_first_seen data_of_unseen)
  show ?thesis
  proof (cases "?c \<in> set (topics_of ps)")
    case True
    then have in_ks: "?c \<in> set ?ks" by (simp add: set_first_seen)
    have ks: "first_seen (topics_of (ps @ [p])) = ?ks"
      using True by (simp add: topics_of_def first_seen_snoc)
    have other: "map (\<lambda>c. (c, data_of (ps @ [p]) c)) ?ks
        = map (\<lambda>c. (c, if c = ?c then ?new else data_of ps c)) ?ks"
      by (intro map_cong) (auto simp: data_of_snoc_other)
    have upd: "AList.update ?c ?new (concept_graph ps) = concept_graph (ps @ [p])"
      by (simp add: concept_graph_def ks other update_graph_old [OF in_ks distinct_first_seen])
    have some: "map_of (concept_graph ps) ?c \<noteq> None"
      using in_ks by (simp add: concept_graph_def map_of_graph)
    show ?thesis
    proof (cases "tier_of (snd p)")
      case (Own t)
      with assms have "m = AList.update ?c (update_concept t (count_response (fst p)) (data_of ps ?c))
          (concept_graph ps)"
        by (simp add: concept_step_unfold look some)
      also have "update_concept t (count_response (fst p)) (data_of ps ?c) = ?new"
        by (simp add: data_of_snoc_same Own)
      finally show ?thesis by (simp only: upd)
    next
      case Inherited
      with assms have "m = concept_graph ps"
        by (simp add: concept_step_unfold some)
      also have "\<dots> = concept_graph (ps @ [p])"
        by (simp add: concept_graph_def ks data_of_snoc_inherited [OF Inherited])
      finally show ?thesis .
    next
      case Undefined
      with assms show ?thesis by (simp add: concept_step_unfold)
    qed
  next
    case False
    then have out_ks: "?c \<notin> set ?ks" by (simp add: set_first_seen)
    have ks: "first_seen (topics_of (ps @ [p])) = ?ks @ [?c]"
      using False by (simp add: topics_of_def first_seen_snoc)
    have keep: "map (\<lambda>c. (c, data_of (ps @ [p]) c)) ?ks = map (\<lambda>c. (c, data_of ps c)) ?ks"
    proof (intro map_cong refl)
      fix x assume "x \<in> set ?ks"
      with out_ks have "topic (snd p) \<noteq> x" by auto
      then show "(x, data_of (ps @ [p]) x) = (x, data_of ps x)"
        by (simp add: data_of_snoc_other)
    qed
    have none: "map_of (concept_graph ps) ?c = None"
      using out_ks by (simp add: concept_graph_def map_of_graph)
    have m': "AList.update ?c empty_concept (concept_graph ps)
        = concept_graph ps @ [(?c, empty_concept)]"
      by (simp add: concept_graph_def update_graph_new [OF out_ks])
    have upd: "AList.update ?c v (concept_graph ps @ [(?c, empty_concept)])
        = concept_graph ps @ [(?c, v)]" for v
      using none by (rule update_last_entry)
    have tgt: "concept_graph (ps @ [p]) = concept_graph ps @ [(?c, ?new)]"
      by (simp add: concept_graph_def ks keep)
    have old: "data_of ps ?c = empty_concept"
      using False by (rule data_of_unseen)
    show ?thesis
    proof (cases "tier_of (snd p)")
      case (Own t)
      with assms have "m = concept_graph ps
          @ [(?c, update_concept t (count_response (fst p)) empty_concept)]"
        by (simp add: concept_step_unfold none m' upd)
      also have "update_concept t (count_response (fst p)) empty_concept = ?new"
        by (simp add: data_of_snoc_same Own old)
      finally show ?thesis by (simp only: tgt)
    next
      case Inherited
      with assms have "m = concept_graph ps @ [(?c, empty_concept)]"
        by (simp add: concept_step_unfold none m')
      also have "empty_concept = ?new"
        by (simp add: data_of_snoc_inherited [OF Inherited] old)
      finally show ?thesis by (simp only: tgt)
    next
      case Undefined
      with assms show ?thesis by (simp add: concept_step_unfold)
    qed
  qed
qed

lemma fold_pairs_concept_graph:
  assumes "fold_pairs concept_step [] ps = Inr m"
  shows "m = concept_graph ps"
  using assms
proof (induction ps arbitrary: m rule: rev_induct)
  case Nil
  then show ?case by (simp add: concept_graph_def topics_of_def first_seen_def)
next
  case (snoc p ps)
  from snoc.prems obtain m0 where m0: "fold_pairs concept_step [] ps = Inr m0"
    and step: "concept_step m0 (fst p) (snd p) = Inr m"
    by (auto simp: fold_pairs_snoc split: sum.splits)
  from snoc.IH [OF m0] step show ?case
    by (simp add: concept_step_graph)
qed

lemma insert_by_output_order:
  assumes "sorted_wrt (output_order T) xs" and "\<forall>y \<in> set xs. encounter_order T x y"
  shows "sorted_wrt (output_order T) (insert_by by_overall_desc x xs)"
  using assms
proof (induction xs)
  case Nil
  show ?case by simp
next
  case (Cons y ys)
  show ?case
  proof (cases "by_overall_desc x y \<le> 0")
    case True
    then have le: "overall_score y \<le> overall_score x"
      by (simp add: by_overall_desc_def)
    have "output_order T x z" if "z \<in> set (y # ys)" for z
    proof -
      from that Cons.prems(1) have "overall_score z \<le> overall_score y"
        by (auto simp: output_order_def)
      with le have "overall_score z \<le> overall_score x" by simp
      moreover from that Cons.prems(2) have "encounter_order T x z" by auto
      ultimately show ?thesis by (auto simp: output_order_def)
    qed
    with True Cons.prems(1) show ?thesis by simp
  next
    case False
    then have "output_order T y x"
      by (simp add: by_overall_desc_def output_order_def)
    with False Cons show ?thesis
      by (simp add: set_insert_by)
  qed
qed

lemma sort_by_output_order:
  assumes "sorted_wrt (encounter_order T) xs"
  shows "sorted_wrt (output_order T) (sort_by by_overall_desc xs)"
  using assms
proof (induction xs)
  case Nil
  show ?case by (simp add: sort_by_def)
next
  case (Cons x xs)
  then have "sorted_wrt (output_order T) (sort_by by_overall_desc xs)"
    and "\<forall>y \<in> set (sort_by by_overall_desc xs). encounter_order T x y"
    by (simp_all add: set_sort_by)
  then have "sorted_wrt (output_order T) (insert_by by_overall_desc x (sort_by by_overall_desc xs))"
    by (rule insert_by_output_order)
  then show ?case by (simp add: sort_by_def)
qed

lemma first_index_less:
  assumes "x \<in> set xs"
  shows "first_index xs x < length xs"
  using assms by (induction xs) (auto simp: first_index_def)

lemma first_index_snoc_old:
  assumes "a \<in> set xs"
  shows "first_index (xs @ [x]) a = first_index xs a"
  using assms by (induction xs) (auto simp: first_index_def)

lemma first_index_snoc_new:
  assumes "x \<notin> set xs"
  shows "first_index (xs @ [x]) x = length xs"
  using assms by (induction xs) (auto simp: first_index_def)

lemma first_seen_increasing:
  "sorted_wrt (\<lambda>a b. first_index T a < first_index T b) (first_seen T)"
proof (induction T rule: rev_induct)
  case Nil
  show ?case by (simp add: first_seen_def)
next
  case (snoc x T)
  have old: "sorted_wrt (\<lambda>a b. first_index (T @ [x]) a < first_index (T @ [x]) b) (first_seen T)"
  proof (rule sorted_wrt_mono_rel [OF _ snoc.IH])
    fix a b
    assume "a \<in> set (first_seen T)" and "b \<in> set (first_seen T)"
      and "first_index T a < first_index T b"
    then show "first_index (T @ [x]) a < first_index (T @ [x]) b"
      by (simp add: set_first_seen first_index_snoc_old)
  qed
  show ?case
  proof (cases "x \<in> set T")
    case True
    with old show ?thesis by (simp add: first_seen_snoc)
  next
    case False
    have "first_index (T @ [x]) a < first_index (T @ [x]) x" if "a \<in> set T" for a
      using that False by (simp add: first_index_snoc_old first_index_snoc_new first_index_less)
    with old False show ?thesis
      by (simp add: first_seen_snoc sorted_wrt_append set_first_seen)
  qed
qed

lemma concept_mastery_entry: "concept (mastery_entry e) = fst e"
  by (simp add: mastery_entry_def Let_def)

lemma concepts_of_graph:
  "map concept (map mastery_entry (concept_graph ps)) = first_seen (topics_of ps)"
  by (simp add: concept_graph_def concept_mastery_entry comp_def)

lemma entries_in_encounter_order:
  "sorted_wrt (encounter_order (topics_of ps)) (map mastery_entry (concept_graph ps))"
proof -
  have "sorted_wrt (\<lambda>a b. first_index (topics_of ps) a < first_index (topics_of ps) b)
      (map concept (map mastery_entry (concept_graph ps)))"
    by (simp only: concepts_of_graph first_seen_increasing)
  then show ?thesis
    by (simp add: sorted_wrt_map encounter_order_def [abs_def])
qed

lemma computeConceptMastery_graph:
  assumes "computeConceptMastery rs qs = Inr out"
  shows "out = sort_by by_overall_desc (map mastery_entry (concept_graph (zip rs qs)))"
proof -
  from assms obtain m where m: "fold_pairs concept_step [] (zip rs qs) = Inr m"
    and out: "out = sort_by by_overall_desc (map mastery_entry m)"
    by (auto simp: computeConceptMastery_def forEach_response_fold split: sum.splits)
  from fold_pairs_concept_graph [OF m] out show ?thesis by simp
qed

lemma computeConceptMastery_output_order:
  assumes "computeConceptMastery rs qs = Inr out"
  shows "sorted_wrt (output_order (topics_of (zip rs qs))) out"
  by (simp only: computeConceptMastery_graph [OF assms] sort_by_output_order
      entries_in_encounter_order)

lemma entry_scores:
  "easy_score (mastery_entry (c, data_of ps c)) = tier_score (tally_of (topic_bucket c Easy ps))
   \<and> moderate_score (mastery_entry (c, data_of ps c)) = tier_score (tally_of (topic_bucket c Moderate ps))
   \<and> hard_score (mastery_entry (c, data_of ps c)) = tier_score (tally_of (topic_bucket c Hard ps))"
  by (simp add: mastery_entry_def Let_def data_of_def)

lemma tier_score_empty: "tier_score (tally_of []) = 0"
  by (simp add: tier_score_def tally_of_def)

section \<open>Question generation: segments\<close>

lemma valid_segment:
  assumes "validate_question chk t i q = []"
  shows "segment q = required_segment t i"
  using assms by (simp add: validate_question_def Let_def violation_if_def split: if_splits)

lemma auto_fix_segment:
  assumes "auto_fix_question chk t i q violations = (q', [])"
  shows "segment q' = required_segment t i"
proof -
  from assms have "validate_question chk t i q' = []"
    by (auto simp: auto_fix_question_def Let_def)
  then show ?thesis by (rule valid_segment)
qed

lemma validate_and_fix_segment:
  assumes "validate_and_fix_question chk t i draft = Some q"
  shows "segment q = required_segment t i"
  using assms
  by (auto simp: validate_and_fix_question_def Let_def valid_segment auto_fix_segment
      split: if_splits prod.splits)

lemma generate_slot_segment:
  "segment (fst (generate_slot chk gen t tp i attempts calls)) = required_segment t i"
proof (induction attempts arbitrary: calls)
  case 0
  show ?case by (simp add: fallback_question_def)
next
  case (Suc attempts)
  show ?case
    by (cases "validate_and_fix_question chk t i (gen calls t (required_segment t i) tp)")
       (simp_all add: Suc.IH validate_and_fix_segment)
qed

lemma length_generate_from: "length (generate_from chk gen t tp i k calls) = k"
  by (induction k arbitrary: i calls) (simp_all split: prod.splits)

lemma generate_from_segment:
  assumes "j < k"
  shows "segment (generate_from chk gen t tp i k calls ! j) = required_segment t (i + j)"
  using assms
proof (induction k arbitrary: i j calls)
  case 0
  then show ?case by simp
next
  case (Suc k)
  obtain q calls' where slot: "generate_slot chk gen t tp i max_retries calls = (q, calls')"
    by (cases "generate_slot chk gen t tp i max_retries calls")
  show ?case
  proof (cases j)
    case 0
    with slot generate_slot_segment [of chk gen t tp i max_retries calls] show ?thesis
      by simp
  next
    case (Suc j')
    with Suc.prems have "j' < k" by simp
    from Suc.IH [OF this, of "Suc i" calls'] slot Suc show ?thesis
      by simp
  qed
qed

section \<open>The claims\<close>

text \<open>
  C1, as amended. A mismatch of the two lengths does not make the scoring call fail. The
  guard \<^verbatim>\<open>if (!question) return\<close> passes over every response whose position has no
  question, and questions past the last response are never read: both aggregators return
  what they return on the first \<open>min (length responses) (length questions)\<close> positions.
  Whatever the lengths are, the aggregators and \<^verbatim>\<open>computeDifficultyAwareAnalytics\<close> return
  a result when the difficulty of every question paired with a response is one of the three
  tiers.
\<close>

theorem C1_mismatch_is_skipped:
  "computeDifficultyScores rs qs =
     computeDifficultyScores (take (length qs) rs) (take (length rs) qs)
   \<and> computeConceptMastery rs qs =
     computeConceptMastery (take (length qs) rs) (take (length rs) qs)
   \<and> ((\<forall>p \<in> set (zip rs qs). \<exists>t. tier_of (snd p) = Own t) \<longrightarrow>
        \<not> isl (computeDifficultyScores rs qs) \<and> \<not> isl (computeConceptMastery rs qs)
        \<and> \<not> isl (computeDifficultyAwareAnalytics rs qs))"
proof (intro conjI impI)
  show "computeDifficultyScores rs qs =
      computeDifficultyScores (take (length qs) rs) (take (length rs) qs)"
    by (simp only: computeDifficultyScores_take)
  show "computeConceptMastery rs qs =
      computeConceptMastery (take (length qs) rs) (take (length rs) qs)"
    by (simp only: computeConceptMastery_take)
next
  assume "\<forall>p \<in> set (zip rs qs). \<exists>t. tier_of (snd p) = Own t"
  then have ok: "\<not> (\<exists>p \<in> set (zip rs qs). tier_of (snd p) = Undefined)"
    by fastforce
  from scoring_returns [OF ok]
  show "\<not> isl (computeDifficultyScores rs qs)" and "\<not> isl (computeConceptMastery rs qs)"
    and "\<not> isl (computeDifficultyAwareAnalytics rs qs)"
    by simp_all
qed

theorem C1_mismatch_is_skipped_witness:
  "computeDifficultyScores mismatch_responses mismatch_questions =
     computeDifficultyScores [hd mismatch_responses] mismatch_questions
   \<and> \<not> isl (computeDifficultyScores mismatch_responses mismatch_questions)
   \<and> \<not> isl (computeConceptMastery mismatch_responses mismatch_questions)
   \<and> \<not> isl (computeDifficultyAwareAnalytics mismatch_responses mismatch_questions)"
proof -
  have t1: "take (length mismatch_questions) mismatch_responses = [hd mismatch_responses]"
    by (simp add: mismatch_responses_def mismatch_questions_def)
  have t2: "take (length mismatch_responses) mismatch_questions = mismatch_questions"
    by (simp add: mismatch_responses_def mismatch_questions_def)
  have tiers: "\<forall>p \<in> set (zip mismatch_responses mismatch_questions).
      \<exists>t. tier_of (snd p) = Own t"
    by (simp add: mismatch_responses_def mismatch_questions_def tier_of_def toLowerCase_def
        toLowerCase_char_def tier_property_def)
  note c1 = C1_mismatch_is_skipped [of mismatch_responses mismatch_questions]
  from c1 have "computeDifficultyScores mismatch_responses mismatch_questions =
      computeDifficultyScores (take (length mismatch_questions) mismatch_responses)
        (take (length mismatch_responses) mismatch_questions)"
    by (rule conjunct1)
  then have eq: "computeDifficultyScores mismatch_responses mismatch_questions =
      computeDifficultyScores [hd mismatch_responses] mismatch_questions"
    by (simp only: t1 t2)
  from c1 tiers have "\<not> isl (computeDifficultyScores mismatch_responses mismatch_questions)
      \<and> \<not> isl (computeConceptMastery mismatch_responses mismatch_questions)
      \<and> \<not> isl (computeDifficultyAwareAnalytics mismatch_responses mismatch_questions)"
    by blast
  with eq show ?thesis by blast
qed

text \<open>
  C1, as stated, fails: with two responses and one question the lengths differ, and the
  aggregators and the main function return a result, in which the second response is not
  counted in any tier or topic.
\<close>

theorem C1_counterexample:
  "length mismatch_responses \<noteq> length mismatch_questions
   \<and> \<not> isl (computeDifficultyScores mismatch_responses mismatch_questions)
   \<and> \<not> isl (computeConceptMastery mismatch_responses mismatch_questions)
   \<and> \<not> isl (computeDifficultyAwareAnalytics mismatch_responses mismatch_questions)
   \<and> total_questions
        (easy (projr (computeDifficultyScores mismatch_responses mismatch_questions))) = 1
   \<and> map question_count
        (projr (computeConceptMastery mismatch_responses mismatch_questions)) = [1]"
proof -
  have ds: "\<not> isl (computeDifficultyScores mismatch_responses mismatch_questions)
      \<and> total_questions
          (easy (projr (computeDifficultyScores mismatch_responses mismatch_questions))) = 1"
    by (simp add: mismatch_responses_def mismatch_questions_def eval_scores)
  have cm: "\<not> isl (computeConceptMastery mismatch_responses mismatch_questions)
      \<and> map question_count
          (projr (computeConceptMastery mismatch_responses mismatch_questions)) = [1]"
    by (simp add: mismatch_responses_def mismatch_questions_def eval_mastery)
  have "\<not> isl (computeDifficultyAwareAnalytics mismatch_responses mismatch_questions)"
    using ds cm by (simp add: analytics_returns)
  moreover have "length mismatch_responses \<noteq> length mismatch_questions"
    by (simp add: mismatch_responses_def mismatch_questions_def)
  ultimately show ?thesis
    using ds cm by simp
qed

text \<open>
  C2. Whatever the draft generator returns, a hard-tier batch of the requested size \<open>n\<close> has
  \<open>n\<close> questions, and the question at the zero-based slot \<open>i\<close> has the segment MCQ_REASONING
  when \<open>i\<close> is even and ASSERTION_REASON when \<open>i\<close> is odd.
\<close>

theorem C2_hard_segments_alternate:
  assumes "i < n"
  shows "length (generate_batch chk gen Hard tp n) = n
    \<and> segment (generate_batch chk gen Hard tp n ! i) =
        (if even i then MCQ_REASONING else ASSERTION_REASON)"
  using generate_from_segment [OF assms, of chk gen Hard tp 0 0]
  by (simp add: generate_batch_def length_generate_from required_segment_def)

theorem C2_hard_segments_alternate_witness:
  "length (generate_batch lenient_checks stubborn_generator Hard ''sorting'' 2) = 2
   \<and> segment (generate_batch lenient_checks stubborn_generator Hard ''sorting'' 2 ! 0)
       = MCQ_REASONING
   \<and> segment (generate_batch lenient_checks stubborn_generator Hard ''sorting'' 2 ! 1)
       = ASSERTION_REASON"
proof -
  have a: "(0::nat) < 2" and b: "(1::nat) < 2" by simp_all
  from C2_hard_segments_alternate [OF a, of lenient_checks stubborn_generator "''sorting''"]
    C2_hard_segments_alternate [OF b, of lenient_checks stubborn_generator "''sorting''"]
  show ?thesis by simp
qed

text \<open>
  C3. Every entry of the list returned by \<^verbatim>\<open>computeConceptMastery\<close> has the overall score
  \<open>easy_score * 0.3 + moderate_score * 0.4 + hard_score * 0.3\<close>, and the score of a tier is 0
  when no paired position has a question of the entry's topic in that tier.
\<close>

theorem C3_weighted_overall_score:
  assumes "computeConceptMastery rs qs = Inr out" and "cm \<in> set out"
  shows "overall_score cm = easy_score cm * 0.3 + moderate_score cm * 0.4 + hard_score cm * 0.3
    \<and> (topic_bucket (concept cm) Easy (zip rs qs) = [] \<longrightarrow> easy_score cm = 0)
    \<and> (topic_bucket (concept cm) Moderate (zip rs qs) = [] \<longrightarrow> moderate_score cm = 0)
    \<and> (topic_bucket (concept cm) Hard (zip rs qs) = [] \<longrightarrow> hard_score cm = 0)"
proof -
  let ?ps = "zip rs qs"
  from assms have "cm \<in> set (map mastery_entry (concept_graph ?ps))"
    by (simp add: computeConceptMastery_graph [OF assms(1)] set_sort_by)
  then obtain c where cm: "cm = mastery_entry (c, data_of ?ps c)"
    by (auto simp: concept_graph_def)
  then have c: "concept cm = c"
    by (simp add: concept_mastery_entry)
  show ?thesis
    unfolding c unfolding cm
    using entry_scores [of c ?ps]
    by (auto simp: mastery_entry_overall tier_score_empty)
qed

theorem C3_weighted_overall_score_witness:
  "topic_bucket ''loops'' Moderate (zip sample_responses sample_questions) = []
   \<and> map moderate_score (projr (computeConceptMastery sample_responses sample_questions)) = [0]
   \<and> map overall_score (projr (computeConceptMastery sample_responses sample_questions))
       = [100 * 0.3 + 0 * 0.4 + 0 * 0.3]"
proof -
  let ?cm = "\<lparr>concept = ''loops'', easy_score = 100, moderate_score = 0, hard_score = 0,
           overall_score = 30, status = NeedsRevision, question_count = 2\<rparr>"
  have run: "computeConceptMastery sample_responses sample_questions = Inr [?cm]"
    by (simp add: sample_responses_def sample_questions_def eval_mastery)
  have mem: "?cm \<in> set [?cm]" by simp
  have none: "topic_bucket ''loops'' Moderate (zip sample_responses sample_questions) = []"
    by (simp add: topic_bucket_def tier_of_def sample_responses_def sample_questions_def
        toLowerCase_def toLowerCase_char_def tier_property_def)
  from C3_weighted_overall_score [OF run mem] none show ?thesis
    by (simp add: run)
qed

text \<open>
  C4. Every entry of the list returned by \<^verbatim>\<open>computeConceptMastery\<close> is mastered exactly
  when its overall score is at least 80, partially understood exactly when the score is at
  least 50 and below 80, and in need of revision exactly when the score is below 50.
\<close>

theorem C4_status_thresholds:
  assumes "computeConceptMastery rs qs = Inr out" and "cm \<in> set out"
  shows "(status cm = Mastered \<longleftrightarrow> overall_score cm \<ge> 80)
    \<and> (status cm = PartiallyUnderstood \<longleftrightarrow> 50 \<le> overall_score cm \<and> overall_score cm < 80)
    \<and> (status cm = NeedsRevision \<longleftrightarrow> overall_score cm < 50)"
proof -
  obtain m e where "cm = mastery_entry e"
    using assms by (rule computeConceptMastery_entries)
  then have "status cm = status_of (overall_score cm)"
    by (simp add: mastery_entry_status)
  then show ?thesis
    by (simp only: status_of_cases)
qed

theorem C4_status_thresholds_witness:
  "computeConceptMastery sample_responses sample_questions =
     Inr [\<lparr>concept = ''loops'', easy_score = 100, moderate_score = 0, hard_score = 0,
           overall_score = 30, status = NeedsRevision, question_count = 2\<rparr>]
   \<and> (status \<lparr>concept = ''loops'', easy_score = 100, moderate_score = 0, hard_score = 0,
           overall_score = 30, status = NeedsRevision, question_count = 2\<rparr> = NeedsRevision)
      = (overall_score \<lparr>concept = ''loops'', easy_score = 100, moderate_score = 0, hard_score = 0,
           overall_score = 30, status = NeedsRevision, question_count = 2\<rparr> < 50)"
proof -
  let ?cm = "\<lparr>concept = ''loops'', easy_score = 100, moderate_score = 0, hard_score = 0,
           overall_score = 30, status = NeedsRevision, question_count = 2\<rparr>"
  have run: "computeConceptMastery sample_responses sample_questions = Inr [?cm]"
    by (simp add: sample_responses_def sample_questions_def eval_mastery)
  have mem: "?cm \<in> set [?cm]" by simp
  from C4_status_thresholds [OF run mem] run show ?thesis by blast
qed

text \<open>
  C5. In the result of \<^verbatim>\<open>computeDifficultyScores\<close> the question count of a tier is the
  number of paired positions whose question falls into the tier, and a tier with no such
  question reports accuracy, mean confidence and mean time 0.
\<close>

theorem C5_empty_tier_reports_zero:
  assumes "computeDifficultyScores rs qs = Inr out"
  shows "(total_questions (easy out) = length (tier_bucket Easy (zip rs qs))
      \<and> (total_questions (easy out) = 0 \<longrightarrow>
           accuracy (easy out) = 0 \<and> avg_confidence (easy out) = 0 \<and> avg_time (easy out) = 0))
    \<and> (total_questions (moderate out) = length (tier_bucket Moderate (zip rs qs))
      \<and> (total_questions (moderate out) = 0 \<longrightarrow>
           accuracy (moderate out) = 0 \<and> avg_confidence (moderate out) = 0
           \<and> avg_time (moderate out) = 0))
    \<and> (total_questions (hard out) = length (tier_bucket Hard (zip rs qs))
      \<and> (total_questions (hard out) = 0 \<longrightarrow>
           accuracy (hard out) = 0 \<and> avg_confidence (hard out) = 0 \<and> avg_time (hard out) = 0))"
  using tier_total [OF assms, of Easy] tier_zero [OF assms, of Easy]
    tier_total [OF assms, of Moderate] tier_zero [OF assms, of Moderate]
    tier_total [OF assms, of Hard] tier_zero [OF assms, of Hard]
  by (simp add: tier_score_of_def)

theorem C5_empty_tier_reports_zero_witness:
  "\<not> isl (computeDifficultyScores sample_responses sample_questions)
   \<and> total_questions (moderate (projr (computeDifficultyScores sample_responses sample_questions))) = 0
   \<and> accuracy (moderate (projr (computeDifficultyScores sample_responses sample_questions))) = 0
   \<and> avg_confidence (moderate (projr (computeDifficultyScores sample_responses sample_questions))) = 0
   \<and> avg_time (moderate (projr (computeDifficultyScores sample_responses sample_questions))) = 0"
proof -
  obtain out where run: "computeDifficultyScores sample_responses sample_questions = Inr out"
    and empty: "total_questions (moderate out) = 0"
    by (simp add: sample_responses_def sample_questions_def eval_scores)
  from C5_empty_tier_reports_zero [OF run] empty show ?thesis
    by (simp add: run)
qed

text \<open>
  C6. \<^verbatim>\<open>determineUnderstandingLevel\<close> returns job-ready exactly when the easy accuracy is
  at least 80, the moderate accuracy at least 70 and the hard accuracy at least 60;
  improving exactly when that fails and the easy accuracy is at least 70 and the moderate
  accuracy at least 60; beginner exactly when both fail. On the three-response scenario the
  accuracies are 50, 100 and 0 and the level is beginner.
\<close>

theorem C6_understanding_level:
  "(determineUnderstandingLevel ds = JobReady \<longleftrightarrow>
      accuracy (easy ds) \<ge> 80 \<and> accuracy (moderate ds) \<ge> 70 \<and> accuracy (hard ds) \<ge> 60)
   \<and> (determineUnderstandingLevel ds = Improving \<longleftrightarrow>
      \<not> (accuracy (easy ds) \<ge> 80 \<and> accuracy (moderate ds) \<ge> 70 \<and> accuracy (hard ds) \<ge> 60)
      \<and> accuracy (easy ds) \<ge> 70 \<and> accuracy (moderate ds) \<ge> 60)
   \<and> (determineUnderstandingLevel ds = Beginner \<longleftrightarrow>
      \<not> (accuracy (easy ds) \<ge> 80 \<and> accuracy (moderate ds) \<ge> 70 \<and> accuracy (hard ds) \<ge> 60)
      \<and> \<not> (accuracy (easy ds) \<ge> 70 \<and> accuracy (moderate ds) \<ge> 60))
   \<and> (\<exists>out. computeDifficultyScores scenario_responses (scenario_questions t1 t2 t3) = Inr out
      \<and> accuracy (easy out) = 50 \<and> accuracy (moderate out) = 100 \<and> accuracy (hard out) = 0
      \<and> determineUnderstandingLevel out = Beginner)"
proof -
  have "\<exists>out. computeDifficultyScores scenario_responses (scenario_questions t1 t2 t3) = Inr out
      \<and> accuracy (easy out) = 50 \<and> accuracy (moderate out) = 100 \<and> accuracy (hard out) = 0
      \<and> determineUnderstandingLevel out = Beginner"
    by (simp add: scenario_responses_def scenario_questions_def eval_scores
        determineUnderstandingLevel_def)
  then show ?thesis
    by (simp add: determineUnderstandingLevel_def Let_def)
qed

theorem C6_understanding_level_witness:
  "determineUnderstandingLevel sample_scores = JobReady"
proof -
  have "accuracy (easy sample_scores) \<ge> 80 \<and> accuracy (moderate sample_scores) \<ge> 70
    \<and> accuracy (hard sample_scores) \<ge> 60"
    by (simp add: sample_scores_def)
  with C6_understanding_level [of sample_scores] show ?thesis by blast
qed



text \<open>
  C8. The list returned by \<^verbatim>\<open>generateRecommendations\<close> has between 1 and 3 entries. It is
  the first three of the candidate messages, which are appended in the order hard accuracy
  below 60, moderate accuracy below 60, easy accuracy below 70, topics in need of revision
  (naming the first two), miscalibration in either direction; when there is no candidate, it
  is the default message alone.
\<close>

theorem C8_recommendations_bounded_and_ordered:
  "1 \<le> length (generateRecommendations ds cms) \<and> length (generateRecommendations ds cms) \<le> 3
   \<and> generateRecommendations ds cms =
     take 3 (if spec_candidates ds cms = [] then [default_message] else spec_candidates ds cms)"
proof -
  let ?c = "if spec_candidates ds cms = [] then [default_message] else spec_candidates ds cms"
  have "?c \<noteq> []" by simp
  then have "1 \<le> length (take 3 ?c)"
    by (cases ?c) simp_all
  moreover have "length (take 3 ?c) \<le> 3" by simp
  ultimately show ?thesis
    by (simp only: generateRecommendations_candidates)
qed

text \<open>
  C9. The list returned by \<^verbatim>\<open>computeConceptMastery\<close> is in descending order of the overall
  score, and of two entries with the same overall score the one whose topic is met first
  among the paired positions comes first.
\<close>

theorem C9_sorted_descending_stable:
  assumes "computeConceptMastery rs qs = Inr out" and "i < j" and "j < length out"
  shows "overall_score (out ! i) \<ge> overall_score (out ! j)
    \<and> (overall_score (out ! i) = overall_score (out ! j) \<longrightarrow>
         first_index (topics_of (zip rs qs)) (concept (out ! i))
           < first_index (topics_of (zip rs qs)) (concept (out ! j)))"
proof -
  have "output_order (topics_of (zip rs qs)) (out ! i) (out ! j)"
    using computeConceptMastery_output_order [OF assms(1)] assms(2,3)
    by (rule sorted_wrt_nth_less)
  then show ?thesis
    by (auto simp: output_order_def encounter_order_def)
qed

theorem C9_sorted_descending_stable_witness:
  "map concept (projr (computeConceptMastery tie_responses tie_questions)) = [''trees'', ''graphs'']
   \<and> map overall_score (projr (computeConceptMastery tie_responses tie_questions)) = [30, 30]
   \<and> first_index (topics_of (zip tie_responses tie_questions)) ''trees''
       < first_index (topics_of (zip tie_responses tie_questions)) ''graphs''"
proof -
  let ?a = "\<lparr>concept = ''trees'', easy_score = 100, moderate_score = 0, hard_score = 0,
           overall_score = 30, status = NeedsRevision, question_count = 1\<rparr>"
  let ?b = "\<lparr>concept = ''graphs'', easy_score = 100, moderate_score = 0, hard_score = 0,
           overall_score = 30, status = NeedsRevision, question_count = 1\<rparr>"
  have run: "computeConceptMastery tie_responses tie_questions = Inr [?a, ?b]"
    by (simp add: tie_responses_def tie_questions_def eval_mastery)
  have ij: "(0::nat) < 1" "1 < length [?a, ?b]" by simp_all
  from C9_sorted_descending_stable [OF run ij] show ?thesis
    by (simp add: run)
qed

text \<open>
  C10. On an empty response list \<^verbatim>\<open>computeOverallConfidenceScore\<close> returns 0, whatever the
  difficulty scores are: the test of the length comes before every division.
\<close>

theorem C10_empty_responses_score_zero:
  "computeOverallConfidenceScore [] difficultyScores = 0"
  by (simp add: computeOverallConfidenceScore_def)

end
